theory Spec2Isabelle
  imports Complex_Main
begin

section \<open>Values and failures of the Python program\<close>

text \<open>
  Both request handlers of \<^verbatim>\<open>app.py\<close> work on the parsed JSON body of a request.
  A parsed body is a Python value built from \<^verbatim>\<open>None\<close>, booleans, numbers, strings,
  lists and dicts with string keys. Numbers are kept abstract (type \<open>'n\<close>): the handlers
  only move them around, compare them and hand them to library routines. Equality of
  \<open>'n\<close> stands for Python's \<^verbatim>\<open>==\<close> on numbers, so a NaN (which standard JSON cannot
  express) has no counterpart; the integers and floats of Python are not told apart.
  A character of a \<open>string\<close> stands for one character of a Python \<^verbatim>\<open>str\<close>. A dict is
  an association list read with \<open>map_of\<close>; its keys are the first components, without
  repetitions.
\<close>

datatype 'n json =
    JNull
  | JBool bool
  | JNum 'n
  | JStr string
  | JArr "'n json list"
  | JObj "(string \<times> 'n json) list"

text \<open>
  Every handler body sits in \<^verbatim>\<open>try: ... except Exception as e\<close>. A handler therefore
  ends in one of three ways: a JSON answer, an explicit \<^verbatim>\<open>return jsonify({'error': msg}), 400\<close>,
  or a caught exception reported with status 500.
\<close>

datatype py_exception = AttributeError | TypeError | ValueError | KeyError | IndexError | LibraryError

datatype failure =
    BadRequest string
  | InternalError py_exception

definition and_then :: "'e + 'a \<Rightarrow> ('a \<Rightarrow> 'e + 'b) \<Rightarrow> 'e + 'b" where
  "and_then m f = (case m of Inl e \<Rightarrow> Inl e | Inr x \<Rightarrow> f x)"

fun map_result :: "('a \<Rightarrow> 'e + 'b) \<Rightarrow> 'a list \<Rightarrow> 'e + 'b list" where
  "map_result f [] = Inr []"
| "map_result f (x # xs) =
     (case f x of
        Inl e \<Rightarrow> Inl e
      | Inr y \<Rightarrow> (case map_result f xs of Inl e \<Rightarrow> Inl e | Inr ys \<Rightarrow> Inr (y # ys)))"

subsection \<open>The Python operations the handlers apply to JSON values\<close>

text \<open>\<^verbatim>\<open>d.get(k, default)\<close>: only a dict has the method.\<close>

fun py_get :: "'n json \<Rightarrow> string \<Rightarrow> 'n json \<Rightarrow> failure + 'n json" where
  "py_get (JObj kvs) k dflt = Inr (case map_of kvs k of Some v \<Rightarrow> v | None \<Rightarrow> dflt)"
| "py_get _ k dflt = Inl (InternalError AttributeError)"

text \<open>Truth value of an object, as \<^verbatim>\<open>not features\<close> tests it.\<close>

fun py_truthy :: "'n::zero json \<Rightarrow> bool" where
  "py_truthy JNull = False"
| "py_truthy (JBool b) = b"
| "py_truthy (JNum x) = (x \<noteq> 0)"
| "py_truthy (JStr s) = (s \<noteq> [])"
| "py_truthy (JArr xs) = (xs \<noteq> [])"
| "py_truthy (JObj kvs) = (kvs \<noteq> [])"

text \<open>
  \<^verbatim>\<open>x[0]\<close>: the first element of a list, the first character of a string; a dict parsed
  from JSON has no key \<open>0\<close>; nothing else is subscriptable.
\<close>

fun py_getitem0 :: "'n json \<Rightarrow> failure + 'n json" where
  "py_getitem0 (JArr []) = Inl (InternalError IndexError)"
| "py_getitem0 (JArr (x # xs)) = Inr x"
| "py_getitem0 (JStr []) = Inl (InternalError IndexError)"
| "py_getitem0 (JStr (c # cs)) = Inr (JStr [c])"
| "py_getitem0 (JObj kvs) = Inl (InternalError KeyError)"
| "py_getitem0 _ = Inl (InternalError TypeError)"

text \<open>\<^verbatim>\<open>len(x)\<close>, defined for lists, strings and dicts (the number of keys).\<close>

fun py_len :: "'n json \<Rightarrow> failure + nat" where
  "py_len (JArr xs) = Inr (length xs)"
| "py_len (JStr s) = Inr (length s)"
| "py_len (JObj kvs) = Inr (length (remdups (map fst kvs)))"
| "py_len _ = Inl (InternalError TypeError)"

text \<open>
  Iteration, as a \<^verbatim>\<open>for\<close> clause does it: over the elements of a list, the characters
  of a string, the keys of a dict.
\<close>

fun py_iter :: "'n json \<Rightarrow> failure + 'n json list" where
  "py_iter (JArr xs) = Inr xs"
| "py_iter (JStr s) = Inr (map (\<lambda>c. JStr [c]) s)"
| "py_iter (JObj kvs) = Inr (map JStr (remdups (map fst kvs)))"
| "py_iter _ = Inl (InternalError TypeError)"

text \<open>
  The target list \<^verbatim>\<open>a, b\<close> of a \<^verbatim>\<open>for a, b in ...\<close> clause: the item is iterated and
  must yield exactly two values (otherwise \<^verbatim>\<open>ValueError\<close>).
\<close>

definition py_unpack2 :: "'n json \<Rightarrow> failure + ('n json \<times> 'n json)" where
  "py_unpack2 item =
     (case py_iter item of
        Inl e \<Rightarrow> Inl e
      | Inr [a, b] \<Rightarrow> Inr (a, b)
      | Inr _ \<Rightarrow> Inl (InternalError ValueError))"

section \<open>The extractor: \<^verbatim>\<open>verify_geojson\<close>\<close>

text \<open>
  Lines 104 to 114: the geometry the handler looks at. For a FeatureCollection it is the
  \<^verbatim>\<open>geometry\<close> of \<^verbatim>\<open>features[0]\<close>, after the emptiness test of \<^verbatim>\<open>features\<close>.
\<close>

definition resolve_geometry :: "'n::zero json \<Rightarrow> failure + 'n json" where
  "resolve_geometry geojson_data =
     and_then (py_get geojson_data ''type'' JNull) (\<lambda>ty.
       if ty = JStr ''FeatureCollection'' then
         and_then (py_get geojson_data ''features'' (JArr [])) (\<lambda>features.
           if \<not> py_truthy features then Inl (BadRequest ''No features found in GeoJSON'')
           else and_then (py_getitem0 features) (\<lambda>feature.
                  py_get feature ''geometry'' (JObj [])))
       else if ty = JStr ''Feature'' then py_get geojson_data ''geometry'' (JObj [])
       else Inr geojson_data)"

text \<open>Line 125: \<^verbatim>\<open>[[lat, lng] for lng, lat in coordinates]\<close>.\<close>

definition leaflet_coords :: "'n json \<Rightarrow> failure + 'n json list" where
  "leaflet_coords coordinates =
     and_then (py_iter coordinates)
       (map_result (\<lambda>item. and_then (py_unpack2 item) (\<lambda>(lng, lat). Inr (JArr [lat, lng]))))"

text \<open>
  Line 129: the \<^verbatim>\<open>properties\<close> of the answer, a conditional expression on the type of
  the top-level object.
\<close>

definition response_properties :: "'n json \<Rightarrow> failure + 'n json" where
  "response_properties geojson_data =
     and_then (py_get geojson_data ''type'' JNull) (\<lambda>ty.
       if ty = JStr ''FeatureCollection'' then
         and_then (py_get geojson_data ''features'' (JArr [JObj []])) (\<lambda>features.
           and_then (py_getitem0 features) (\<lambda>feature.
             py_get feature ''properties'' (JObj [])))
       else Inr (JObj []))"

definition verify_geojson :: "'n::zero json \<Rightarrow> failure + 'n json" where
  "verify_geojson data =
     and_then (py_get data ''geojson'' (JObj [])) (\<lambda>geojson_data.
     and_then (resolve_geometry geojson_data) (\<lambda>geometry.
     and_then (py_get geometry ''type'' JNull) (\<lambda>gty.
       if gty \<noteq> JStr ''Polygon'' then Inl (BadRequest ''Only Polygon geometry supported'')
       else
         and_then (py_get geometry ''coordinates'' (JArr [JArr []])) (\<lambda>rings.
         and_then (py_getitem0 rings) (\<lambda>coordinates.
         and_then (py_len coordinates) (\<lambda>n.
           if n < 3 then Inl (BadRequest ''Invalid polygon coordinates'')
           else
             and_then (leaflet_coords coordinates) (\<lambda>coords.
             and_then (response_properties geojson_data) (\<lambda>props.
               Inr (JObj [(''coordinates'', JArr coords), (''properties'', props)])))))))))"

section \<open>The calculator: \<^verbatim>\<open>calculate_area\<close>\<close>

text \<open>
  The handler calls routines that are not part of the repository: the built-ins
  \<^verbatim>\<open>round\<close>, \<^verbatim>\<open>abs\<close> and \<^verbatim>\<open>/\<close> on numbers, Shapely's
  \<^verbatim>\<open>Polygon(...).is_valid\<close>, and \<^verbatim>\<open>geod.polygon_area_perimeter\<close> of the module-level
  \<^verbatim>\<open>Geod(ellps='WGS84')\<close>. They are parameters of the model, collected in one record;
  every theorem about the calculator holds for each interpretation of them.
  \<open>polygon_is_valid\<close> answers \<open>None\<close> where constructing the polygon raises.
\<close>

record 'n pylib =
  num_of_int :: "int \<Rightarrow> 'n"
  round_ndigits :: "'n \<Rightarrow> nat \<Rightarrow> 'n"
  abs_num :: "'n \<Rightarrow> 'n"
  truediv :: "'n \<Rightarrow> 'n \<Rightarrow> 'n"
  polygon_is_valid :: "('n \<times> 'n) list \<Rightarrow> bool option"
  polygon_area_perimeter :: "'n list \<Rightarrow> 'n list \<Rightarrow> 'n \<times> 'n"

text \<open>
  \<^verbatim>\<open>round(x, ndigits)\<close>: defined on numbers; a boolean is an \<^verbatim>\<open>int\<close> in Python and
  rounds to itself as a number. Anything else raises \<^verbatim>\<open>TypeError\<close>.
\<close>

fun py_round :: "'n pylib \<Rightarrow> 'n json \<Rightarrow> nat \<Rightarrow> failure + 'n" where
  "py_round lib (JNum x) nd = Inr (round_ndigits lib x nd)"
| "py_round lib (JBool b) nd = Inr (num_of_int lib (if b then 1 else 0))"
| "py_round lib _ nd = Inl (InternalError TypeError)"

text \<open>Line 44: \<^verbatim>\<open>[[lng, lat] for lat, lng in coordinates]\<close>.\<close>

definition to_geojson_order :: "'n json \<Rightarrow> failure + ('n json \<times> 'n json) list" where
  "to_geojson_order coordinates =
     and_then (py_iter coordinates)
       (map_result (\<lambda>item. and_then (py_unpack2 item) (\<lambda>(lat, lng). Inr (lng, lat))))"

text \<open>
  Lines 20 to 22: \<^verbatim>\<open>[[round(lon, precision), round(lat, precision)] for lon, lat in coords]\<close>.
  The items are the two-element lists built on line 44, so unpacking them cannot fail.
\<close>

definition round_coordinates ::
  "'n pylib \<Rightarrow> ('n json \<times> 'n json) list \<Rightarrow> nat \<Rightarrow> failure + ('n \<times> 'n) list" where
  "round_coordinates lib coords precision =
     map_result (\<lambda>(lon, lat).
       and_then (py_round lib lon precision) (\<lambda>rlon.
       and_then (py_round lib lat precision) (\<lambda>rlat. Inr (rlon, rlat)))) coords"

text \<open>
  Lines 49 to 51: the first coordinate is appended when it differs from the last one.
  The list has at least three entries when the handler gets here.
\<close>

definition close_ring :: "'a list \<Rightarrow> 'a list" where
  "close_ring geojson_coords =
     (if hd geojson_coords \<noteq> last geojson_coords
      then geojson_coords @ [hd geojson_coords] else geojson_coords)"

definition ring_json :: "('n \<times> 'n) list \<Rightarrow> 'n json" where
  "ring_json geojson_coords = JArr (map (\<lambda>(lon, lat). JArr [JNum lon, JNum lat]) geojson_coords)"

text \<open>
  Lines 68 to 87: the hectare figure and the answer. \<open>area_m2\<close> is the absolute value
  computed on line 66, \<open>now\<close> the text \<^verbatim>\<open>datetime.utcnow().isoformat()\<close> returns when the
  request is served, \<open>n\<close> the length of the input list.
\<close>

definition area_response ::
  "'n pylib \<Rightarrow> string \<Rightarrow> ('n \<times> 'n) list \<Rightarrow> 'n \<Rightarrow> nat \<Rightarrow> 'n json" where
  "area_response lib now geojson_coords area_m2 n =
     (let area_ha = round_ndigits lib (truediv lib area_m2 (num_of_int lib 10000)) 4 in
      JObj [
        (''type'', JStr ''FeatureCollection''),
        (''features'', JArr [
          JObj [
            (''type'', JStr ''Feature''),
            (''geometry'', JObj [
              (''type'', JStr ''Polygon''),
              (''coordinates'', JArr [ring_json geojson_coords])]),
            (''properties'', JObj [
              (''area_ha'', JNum area_ha),
              (''area_m2'', JNum (round_ndigits lib area_m2 2)),
              (''timestamp'', JStr (now @ ''Z'')),
              (''coordinate_count'', JNum (num_of_int lib (int n)))])]])])"

definition calculate_area :: "'n pylib \<Rightarrow> string \<Rightarrow> 'n json \<Rightarrow> failure + 'n json" where
  "calculate_area lib now data =
     and_then (py_get data ''coordinates'' (JArr [])) (\<lambda>coordinates.
     and_then (py_len coordinates) (\<lambda>n.
       if n < 3 then Inl (BadRequest ''At least 3 coordinates required'')
       else
         and_then (to_geojson_order coordinates) (\<lambda>swapped.
         and_then (round_coordinates lib swapped 6) (\<lambda>rounded.
           let geojson_coords = close_ring rounded in
           case polygon_is_valid lib geojson_coords of
             None \<Rightarrow> Inl (InternalError LibraryError)
           | Some valid \<Rightarrow>
               if \<not> valid then Inl (BadRequest ''Invalid polygon geometry'')
               else
                 let lons = map fst geojson_coords;
                     lats = map snd geojson_coords;
                     area_m2 = abs_num lib (fst (polygon_area_perimeter lib lons lats))
                 in Inr (area_response lib now geojson_coords area_m2 n)))))"

text \<open>Lines 61 to 66 as a function of the closed ring: the unsigned area.\<close>

definition area_of_ring :: "'n pylib \<Rightarrow> ('n \<times> 'n) list \<Rightarrow> 'n" where
  "area_of_ring lib ring =
     abs_num lib (fst (polygon_area_perimeter lib (map fst ring) (map snd ring)))"

section \<open>Reading an answer; a sample interpretation of the library routines\<close>

text \<open>Selectors for the parts of the calculator's answer the properties speak about.\<close>

definition first_feature :: "'n json \<Rightarrow> failure + 'n json" where
  "first_feature out = and_then (py_get out ''features'' JNull) py_getitem0"

definition output_ring :: "'n json \<Rightarrow> failure + 'n json" where
  "output_ring out =
     and_then (first_feature out) (\<lambda>feature.
     and_then (py_get feature ''geometry'' JNull) (\<lambda>geometry.
     and_then (py_get geometry ''coordinates'' JNull) py_getitem0))"

definition output_property :: "'n json \<Rightarrow> string \<Rightarrow> failure + 'n json" where
  "output_property out k =
     and_then (first_feature out) (\<lambda>feature.
     and_then (py_get feature ''properties'' JNull) (\<lambda>props. py_get props k JNull))"

text \<open>
  What one item of the input list contributes: a two-element list \<^verbatim>\<open>[lat, lng]\<close> of
  values \<^verbatim>\<open>round\<close> accepts gives the rounded pair, in the order of the input.
\<close>

definition input_vertex :: "'n pylib \<Rightarrow> 'n json \<Rightarrow> ('n \<times> 'n) option" where
  "input_vertex lib item =
     (case item of
        JArr [lat, lng] \<Rightarrow>
          (case (py_round lib lat 6, py_round lib lng 6) of
             (Inr rlat, Inr rlng) \<Rightarrow> Some (rlat, rlng)
           | _ \<Rightarrow> None)
      | _ \<Rightarrow> None)"


definition leaflet_pair :: "'n \<times> 'n \<Rightarrow> 'n json" where
  "leaflet_pair v = (case v of (lat, lng) \<Rightarrow> JArr [JNum lat, JNum lng])"

text \<open>Replacing the time stamp of an answer, to compare answers given at different times.\<close>

fun update_field :: "string \<Rightarrow> ('n json \<Rightarrow> 'n json) \<Rightarrow> 'n json \<Rightarrow> 'n json" where
  "update_field k f (JObj kvs) = JObj (map (\<lambda>(k', v). if k' = k then (k', f v) else (k', v)) kvs)"
| "update_field k f v = v"

fun update_first :: "('n json \<Rightarrow> 'n json) \<Rightarrow> 'n json \<Rightarrow> 'n json" where
  "update_first f (JArr (x # xs)) = JArr (f x # xs)"
| "update_first f v = v"

definition blank_timestamp :: "'n json \<Rightarrow> 'n json" where
  "blank_timestamp out =
     update_field ''features''
       (update_first (update_field ''properties'' (update_field ''timestamp'' (\<lambda>_. JNull)))) out"

text \<open>
  To run the calculator on sample requests the library routines need an interpretation.
  The one below works on exact rationals: decimal rounding with ties to even, the planar
  shoelace formula where the program calls the geodesic routine (the perimeter is not
  used by the handler and is reported as 0), and a validity test that accepts the rings
  of non-zero planar area. It stands in for the libraries in the sample runs only.
\<close>

definition round_half_even :: "rat \<Rightarrow> int" where
  "round_half_even x =
     (let f = \<lfloor>x\<rfloor>; d = x - of_int f
      in if d < 1 / 2 then f else if 1 / 2 < d then f + 1 else if even f then f else f + 1)"

definition decimal_round :: "rat \<Rightarrow> nat \<Rightarrow> rat" where
  "decimal_round x nd = of_int (round_half_even (x * 10 ^ nd)) / 10 ^ nd"

fun shoelace :: "(rat \<times> rat) list \<Rightarrow> rat" where
  "shoelace ((x1, y1) # (x2, y2) # ps) = (x1 * y2 - x2 * y1) + shoelace ((x2, y2) # ps)"
| "shoelace _ = 0"

definition planar_lib :: "rat pylib" where
  "planar_lib = \<lparr>
     num_of_int = of_int,
     round_ndigits = decimal_round,
     abs_num = abs,
     truediv = (\<lambda>x y. x / y),
     polygon_is_valid = (\<lambda>ring. Some (shoelace ring \<noteq> 0)),
     polygon_area_perimeter = (\<lambda>lons lats. (shoelace (zip lons lats) / 2, 0)) \<rparr>"

text \<open>Sample requests and answers.\<close>

definition unit_square :: "rat json" where
  "unit_square = JArr [JArr [JNum 0, JNum 0], JArr [JNum 0, JNum 1],
                       JArr [JNum 1, JNum 1], JArr [JNum 1, JNum 0]]"

definition square_request :: "rat json" where
  "square_request = JObj [(''coordinates'', unit_square)]"

definition square_answer :: "string \<Rightarrow> rat json" where
  "square_answer now = area_response planar_lib now [(0, 0), (1, 0), (1, 1), (0, 1), (0, 0)] 1 4"

definition field_request :: "rat json" where
  "field_request = JObj [(''coordinates'',
     JArr [JArr [JNum (13000004 / 10000000), JNum (1038 / 10)],
           JArr [JNum (13000004 / 10000000), JNum (1039000006 / 10000000)],
           JArr [JNum (14 / 10), JNum (1039000006 / 10000000)],
           JArr [JNum (13000004 / 10000000), JNum (1038 / 10)]])]"

definition field_ring :: "(rat \<times> rat) list" where
  "field_ring = [(1038 / 10, 13 / 10), (103900001 / 1000000, 13 / 10),
                 (103900001 / 1000000, 14 / 10), (1038 / 10, 13 / 10)]"

definition field_answer :: "string \<Rightarrow> rat json" where
  "field_answer now = area_response planar_lib now field_ring (100001 / 20000000) 4"

definition repeated_point :: "rat json" where
  "repeated_point = JArr [JArr [JNum 0, JNum 0], JArr [JNum 0, JNum 0], JArr [JNum 0, JNum 0]]"

definition two_points :: "rat json" where
  "two_points = JArr [JArr [JNum 0, JNum 0], JArr [JNum 1, JNum 1]]"

definition triangle :: "rat json" where
  "triangle = JArr [JArr [JNum 10, JNum 50], JArr [JNum 11, JNum 50],
                    JArr [JNum 11, JNum 51], JArr [JNum 10, JNum 50]]"

definition triangle_leaflet :: "rat json" where
  "triangle_leaflet = JArr [JArr [JNum 50, JNum 10], JArr [JNum 50, JNum 11],
                            JArr [JNum 51, JNum 11], JArr [JNum 50, JNum 10]]"

definition polygon_geometry :: "rat json \<Rightarrow> rat json" where
  "polygon_geometry ring = JObj [(''type'', JStr ''Polygon''), (''coordinates'', JArr [ring])]"

definition named_feature :: "rat json" where
  "named_feature = JObj [
     (''type'', JStr ''Feature''),
     (''geometry'', polygon_geometry triangle),
     (''properties'', JObj [(''name'', JStr ''north field'')])]"

definition point_feature :: "rat json" where
  "point_feature = JObj [
     (''type'', JStr ''Feature''),
     (''geometry'', JObj [(''type'', JStr ''Point''), (''coordinates'', JArr [JNum 10, JNum 50])]),
     (''properties'', JObj [])]"

definition unlocated_feature :: "rat json" where
  "unlocated_feature = JObj [
     (''type'', JStr ''Feature''),
     (''geometry'', JNull),
     (''properties'', JObj [])]"

definition verify_request :: "'n json \<Rightarrow> 'n json" where
  "verify_request geojson = JObj [(''geojson'', geojson)]"

section \<open>Basic facts\<close>

lemma and_then_Inr_iff: "and_then m f = Inr y \<longleftrightarrow> (\<exists>x. m = Inr x \<and> f x = Inr y)"
  by (cases m) (simp_all add: and_then_def)

lemma and_then_Inr [simp]: "and_then (Inr x) f = f x"
  by (simp add: and_then_def)

lemma and_then_Inl [simp]: "and_then (Inl e) f = Inl e"
  by (simp add: and_then_def)

lemma map_result_Cons_Inr:
  "map_result f (x # xs) = Inr ys \<longleftrightarrow>
     (\<exists>y ys'. ys = y # ys' \<and> f x = Inr y \<and> map_result f xs = Inr ys')"
  by (auto split: sum.splits)

lemma py_unpack2_round:
  assumes "py_unpack2 item = Inr (a, b)" and "py_round lib a nd = Inr ra"
  shows "item = JArr [a, b]"
proof (cases item)
  case (JArr xs)
  with assms(1) show ?thesis
    by (auto simp: py_unpack2_def split: list.splits)
next
  case (JStr s)
  with assms(1) have "\<exists>c. a = JStr c"
    by (auto simp: py_unpack2_def split: list.splits)
  with assms(2) show ?thesis by auto
next
  case (JObj kvs)
  with assms(1) have "\<exists>c. a = JStr c"
    by (auto simp: py_unpack2_def split: list.splits)
  with assms(2) show ?thesis by auto
qed (use assms(1) in \<open>simp_all add: py_unpack2_def\<close>)

lemma item_vertex:
  assumes "and_then (py_unpack2 item) (\<lambda>(lat, lng). Inr (lng, lat)) = Inr (x, y)"
    and "py_round lib x 6 = Inr rlon" and "py_round lib y 6 = Inr rlat"
  shows "input_vertex lib item = Some (rlat, rlon)"
proof -
  from assms(1) have u: "py_unpack2 item = Inr (y, x)"
    by (auto simp: and_then_Inr_iff)
  from py_unpack2_round [OF u assms(3)] have "item = JArr [y, x]" .
  with assms(2,3) show ?thesis by (simp add: input_vertex_def)
qed

lemma items_vertices:
  assumes "map_result (\<lambda>item. and_then (py_unpack2 item) (\<lambda>(lat, lng). Inr (lng, lat))) cs = Inr swapped"
    and "round_coordinates lib swapped 6 = Inr rounded"
  shows "map (input_vertex lib) cs = map Some (map prod.swap rounded)"
  using assms
proof (induction cs arbitrary: swapped rounded)
  case Nil
  then show ?case by (auto simp: round_coordinates_def)
next
  case (Cons c cs)
  from Cons.prems(1) obtain p ps where sw: "swapped = p # ps"
    and p: "and_then (py_unpack2 c) (\<lambda>(lat, lng). Inr (lng, lat)) = Inr p"
    and ps: "map_result (\<lambda>item. and_then (py_unpack2 item) (\<lambda>(lat, lng). Inr (lng, lat))) cs = Inr ps"
    by (auto simp: map_result_Cons_Inr simp del: map_result.simps)
  obtain x y where xy: "p = (x, y)" by (cases p)
  from Cons.prems(2) sw xy obtain r rs where ro: "rounded = r # rs"
    and r: "and_then (py_round lib x 6) (\<lambda>rlon. and_then (py_round lib y 6) (\<lambda>rlat. Inr (rlon, rlat))) = Inr r"
    and rs: "round_coordinates lib ps 6 = Inr rs"
    by (auto simp: round_coordinates_def map_result_Cons_Inr simp del: map_result.simps)
  from r obtain rlon rlat where rx: "py_round lib x 6 = Inr rlon" and ry: "py_round lib y 6 = Inr rlat"
    and rr: "r = (rlon, rlat)"
    by (auto simp: and_then_Inr_iff)
  from item_vertex [OF p [unfolded xy] rx ry] Cons.IH [OF ps rs] ro rr
  show ?case by simp
qed

lemma to_geojson_order_list:
  assumes "to_geojson_order coordinates = Inr swapped"
    and "round_coordinates lib swapped 6 = Inr rounded"
    and "py_len coordinates = Inr n" and "0 < n"
  shows "\<exists>cs. coordinates = JArr cs"
proof (cases coordinates)
  case (JStr s)
  with assms(3,4) obtain c s' where s: "s = c # s'" by (cases s) auto
  have "py_unpack2 (JStr [c] :: 'a json) = Inl (InternalError ValueError)"
    by (simp add: py_unpack2_def)
  with assms(1) JStr s show ?thesis
    by (simp add: to_geojson_order_def)
next
  case (JObj kvs)
  with assms(3,4) obtain k ks where ks: "remdups (map fst kvs) = k # ks"
    by (cases "remdups (map fst kvs)") auto
  with assms(1) JObj obtain p ps where sw: "swapped = p # ps"
    and p: "and_then (py_unpack2 (JStr k :: 'a json)) (\<lambda>(lat, lng). Inr (lng, lat)) = Inr p"
    by (auto simp: to_geojson_order_def map_result_Cons_Inr simp del: map_result.simps)
  obtain x y where xy: "p = (x, y)" by (cases p)
  from p xy have "\<exists>c. x = JStr c"
    by (auto simp: and_then_Inr_iff py_unpack2_def split: list.splits)
  with assms(2) sw xy show ?thesis
    by (auto simp: round_coordinates_def map_result_Cons_Inr and_then_Inr_iff simp del: map_result.simps)
qed (use assms in \<open>simp_all add: to_geojson_order_def\<close>)

lemma vertex_item:
  assumes "input_vertex lib item = Some (rlat, rlon)"
  shows "\<exists>lat lng. item = JArr [lat, lng] \<and> py_round lib lat 6 = Inr rlat \<and> py_round lib lng 6 = Inr rlon"
  using assms
  by (auto simp: input_vertex_def split: json.splits list.splits sum.splits)

lemma py_unpack2_pair [simp]: "py_unpack2 (JArr [a, b]) = Inr (a, b)"
  by (simp add: py_unpack2_def)

lemma vertices_items:
  assumes "map (input_vertex lib) cs = map Some vs"
  shows "\<exists>swapped. to_geojson_order (JArr cs) = Inr swapped \<and>
           round_coordinates lib swapped 6 = Inr (map prod.swap vs)"
  using assms
proof (induction cs arbitrary: vs)
  case Nil
  then show ?case by (simp add: to_geojson_order_def round_coordinates_def)
next
  case (Cons c cs)
  from Cons.prems obtain v vs' where vs: "vs = v # vs'" and v: "input_vertex lib c = Some v"
    and rest: "map (input_vertex lib) cs = map Some vs'"
    by (cases vs) auto
  obtain rlat rlon where vv: "v = (rlat, rlon)" by (cases v)
  from vertex_item [OF v [unfolded vv]] obtain lat lng where c: "c = JArr [lat, lng]"
    and rl: "py_round lib lat 6 = Inr rlat" "py_round lib lng 6 = Inr rlon"
    by blast
  from Cons.IH [OF rest] obtain sw where sw: "to_geojson_order (JArr cs) = Inr sw"
    and ro: "round_coordinates lib sw 6 = Inr (map prod.swap vs')"
    by blast
  from sw c have "to_geojson_order (JArr (c # cs)) = Inr ((lng, lat) # sw)"
    by (simp add: to_geojson_order_def)
  moreover from ro rl have "round_coordinates lib ((lng, lat) # sw) 6 = Inr (map prod.swap vs)"
    by (simp add: round_coordinates_def vs vv)
  ultimately show ?case by blast
qed

text \<open>The calculator on a list of well-formed vertices.\<close>

lemma calculate_area_vertices:
  assumes "py_get data ''coordinates'' (JArr []) = Inr (JArr cs)"
    and "3 \<le> length cs"
    and "map (input_vertex lib) cs = map Some vs"
  shows "calculate_area lib now data =
           (case polygon_is_valid lib (close_ring (map prod.swap vs)) of
              None \<Rightarrow> Inl (InternalError LibraryError)
            | Some valid \<Rightarrow>
                if valid
                then Inr (area_response lib now (close_ring (map prod.swap vs))
                            (area_of_ring lib (close_ring (map prod.swap vs))) (length cs))
                else Inl (BadRequest ''Invalid polygon geometry''))"
proof -
  from vertices_items [OF assms(3)] obtain swapped where
    "to_geojson_order (JArr cs) = Inr swapped"
    "round_coordinates lib swapped 6 = Inr (map prod.swap vs)"
    by blast
  with assms(1,2) show ?thesis
    by (simp add: calculate_area_def area_of_ring_def Let_def split: option.splits)
qed

lemma calculate_area_accepted:
  assumes "calculate_area lib now data = Inr out"
  obtains cs vs where
    "py_get data ''coordinates'' (JArr []) = Inr (JArr cs)"
    "3 \<le> length cs"
    "map (input_vertex lib) cs = map Some vs"
    "length vs = length cs"
    "polygon_is_valid lib (close_ring (map prod.swap vs)) = Some True"
    "out = area_response lib now (close_ring (map prod.swap vs))
             (area_of_ring lib (close_ring (map prod.swap vs))) (length cs)"
proof -
  from assms obtain coordinates n swapped rounded where
    c: "py_get data ''coordinates'' (JArr []) = Inr coordinates"
    and n: "py_len coordinates = Inr n" "\<not> n < 3"
    and sw: "to_geojson_order coordinates = Inr swapped"
    and ro: "round_coordinates lib swapped 6 = Inr rounded"
    by (auto simp: calculate_area_def and_then_Inr_iff split: if_splits)
  from to_geojson_order_list [OF sw ro n(1)] n(2) obtain cs where cs: "coordinates = JArr cs"
    by auto
  from sw cs have "map_result (\<lambda>item. and_then (py_unpack2 item) (\<lambda>(lat, lng). Inr (lng, lat))) cs = Inr swapped"
    by (simp add: to_geojson_order_def)
  from items_vertices [OF this ro]
  have vs: "map (input_vertex lib) cs = map Some (map prod.swap rounded)" .
  have len: "3 \<le> length cs" using n cs by simp
  have l2: "length (map prod.swap rounded) = length cs"
    using arg_cong [OF vs, of length] by simp
  from calculate_area_vertices [OF c [unfolded cs] len vs, of now] assms
  have "polygon_is_valid lib (close_ring (map prod.swap (map prod.swap rounded))) = Some True
      \<and> out = area_response lib now (close_ring (map prod.swap (map prod.swap rounded)))
             (area_of_ring lib (close_ring (map prod.swap (map prod.swap rounded)))) (length cs)"
    by (auto split: option.splits if_splits)
  with that [OF c [unfolded cs] len vs l2] show thesis by blast
qed

lemma output_ring_response [simp]:
  "output_ring (area_response lib now ring a n) = Inr (ring_json ring)"
  by (simp add: output_ring_def first_feature_def area_response_def Let_def)

lemma first_feature_response:
  "first_feature (area_response lib now ring a n) =
     Inr (JObj [
            (''type'', JStr ''Feature''),
            (''geometry'', JObj [
              (''type'', JStr ''Polygon''),
              (''coordinates'', JArr [ring_json ring])]),
            (''properties'', JObj [
              (''area_ha'', JNum (round_ndigits lib (truediv lib a (num_of_int lib 10000)) 4)),
              (''area_m2'', JNum (round_ndigits lib a 2)),
              (''timestamp'', JStr (now @ ''Z'')),
              (''coordinate_count'', JNum (num_of_int lib (int n)))])])"
  by (simp add: first_feature_def area_response_def Let_def)

lemma output_property_response:
  "output_property (area_response lib now ring a n) ''area_ha'' =
     Inr (JNum (round_ndigits lib (truediv lib a (num_of_int lib 10000)) 4))"
  "output_property (area_response lib now ring a n) ''area_m2'' = Inr (JNum (round_ndigits lib a 2))"
  "output_property (area_response lib now ring a n) ''timestamp'' = Inr (JStr (now @ ''Z''))"
  "output_property (area_response lib now ring a n) ''coordinate_count'' = Inr (JNum (num_of_int lib (int n)))"
  by (simp_all add: output_property_def first_feature_response)

lemma close_ring_map:
  assumes "inj f" and "xs \<noteq> []"
  shows "close_ring (map f xs) = map f (close_ring xs)"
  using assms by (simp add: close_ring_def hd_map last_map inj_eq)


lemma inj_leaflet_pair: "inj leaflet_pair"
  by (auto simp: inj_on_def leaflet_pair_def)




lemma length_close_ring: "length xs \<le> length (close_ring xs)"
  by (simp add: close_ring_def)

text \<open>
  Reversing the input list: a ring given closed is handed to the library routines
  reversed; a ring given open is closed at its other end, so that the closed ring of the
  reversed input starts at a different vertex.
\<close>

lemma close_ring_rev:
  assumes "xs \<noteq> []"
  shows "close_ring (rev xs) =
           (if hd xs = last xs then rev (close_ring xs) else rev xs @ [last xs])"
  using assms by (auto simp: close_ring_def hd_rev last_rev)

lemma input_vertex_rev:
  "map (input_vertex lib) cs = map Some vs \<Longrightarrow>
   map (input_vertex lib) (rev cs) = map Some (rev vs)"
  by (simp add: rev_map [symmetric])


lemma leaflet_coords_ring_json:
  "leaflet_coords (ring_json ring) = Inr (map (\<lambda>(lon, lat). JArr [JNum lat, JNum lon]) ring)"
proof -
  have "map_result (\<lambda>item. and_then (py_unpack2 item) (\<lambda>(lng, lat). Inr (JArr [lat, lng])))
          (map (\<lambda>(lon, lat). JArr [JNum lon, JNum lat]) ring)
        = Inr (map (\<lambda>(lon, lat). JArr [JNum lat, JNum lon]) ring)"
    by (induction ring) (auto simp: split_def)
  then show ?thesis by (simp add: leaflet_coords_def ring_json_def)
qed

lemma leaflet_swap:
  "map (\<lambda>(lon, lat). JArr [JNum lat, JNum lon]) (map prod.swap vs) = map leaflet_pair vs"
  by (simp add: leaflet_pair_def split_def)

lemma verify_area_response:
  assumes "3 \<le> length ring"
  shows "verify_geojson (JObj [(''geojson'', area_response lib now ring a n)]) =
           Inr (JObj [(''coordinates'', JArr (map (\<lambda>(lon, lat). JArr [JNum lat, JNum lon]) ring)),
                      (''properties'', JObj [
                         (''area_ha'', JNum (round_ndigits lib (truediv lib a (num_of_int lib 10000)) 4)),
                         (''area_m2'', JNum (round_ndigits lib a 2)),
                         (''timestamp'', JStr (now @ ''Z'')),
                         (''coordinate_count'', JNum (num_of_int lib (int n)))])])"
proof -
  have len: "py_len (ring_json ring) = Inr (length ring)"
    by (simp add: ring_json_def)
  show ?thesis
    using assms
    by (simp add: verify_geojson_def resolve_geometry_def response_properties_def
        area_response_def Let_def len leaflet_coords_ring_json)
qed

lemma verify_feature:
  assumes "3 \<le> length ring" and "first_feature (area_response lib now ring a n) = Inr feature"
  shows "verify_geojson (JObj [(''geojson'', feature)]) =
           Inr (JObj [(''coordinates'', JArr (map (\<lambda>(lon, lat). JArr [JNum lat, JNum lon]) ring)),
                      (''properties'', JObj [])])"
proof -
  have len: "py_len (ring_json ring) = Inr (length ring)"
    by (simp add: ring_json_def)
  from assms(2) have f: "feature = JObj [
            (''type'', JStr ''Feature''),
            (''geometry'', JObj [
              (''type'', JStr ''Polygon''),
              (''coordinates'', JArr [ring_json ring])]),
            (''properties'', JObj [
              (''area_ha'', JNum (round_ndigits lib (truediv lib a (num_of_int lib 10000)) 4)),
              (''area_m2'', JNum (round_ndigits lib a 2)),
              (''timestamp'', JStr (now @ ''Z'')),
              (''coordinate_count'', JNum (num_of_int lib (int n)))])]"
    by (simp add: first_feature_response)
  show ?thesis
    using assms(1)
    by (simp add: f verify_geojson_def resolve_geometry_def response_properties_def
        len leaflet_coords_ring_json)
qed

lemma blank_timestamp_response:
  "blank_timestamp (area_response lib t1 ring a n) = blank_timestamp (area_response lib t2 ring a n)"
  by (simp add: blank_timestamp_def area_response_def Let_def)

lemma calculate_area_failure_time:
  assumes "calculate_area lib t1 data = Inl e"
  shows "calculate_area lib t2 data = Inl e"
proof (cases "py_get data ''coordinates'' (JArr [])")
  case (Inl e')
  with assms show ?thesis by (simp add: calculate_area_def)
next
  case (Inr coordinates)
  note c = this
  show ?thesis
  proof (cases "py_len coordinates")
    case (Inl e')
    with assms c show ?thesis by (simp add: calculate_area_def)
  next
    case (Inr n)
    note n = this
    show ?thesis
    proof (cases "n < 3")
      case True
      with assms c n show ?thesis by (simp add: calculate_area_def)
    next
      case False
      note n = n False
      show ?thesis
      proof (cases "to_geojson_order coordinates")
        case (Inl e')
        with assms c n show ?thesis by (simp add: calculate_area_def)
      next
        case (Inr swapped)
        note sw = this
        show ?thesis
        proof (cases "round_coordinates lib swapped 6")
          case (Inl e')
          with assms c n sw show ?thesis by (simp add: calculate_area_def)
        next
          case (Inr rounded)
          note ro = this
          show ?thesis
          proof (cases "polygon_is_valid lib (close_ring rounded)")
            case None
            with assms c n sw ro show ?thesis by (simp add: calculate_area_def)
          next
            case (Some valid)
            with assms c n sw ro show ?thesis
              by (cases valid) (simp_all add: calculate_area_def Let_def)
          qed
        qed
      qed
    qed
  qed
qed

text \<open>
  The validity test is applied to the rounded, closed ring in longitude-latitude order.
  When it answers \<^verbatim>\<open>False\<close> the request is refused and no area is computed; what the
  test means geometrically is Shapely's business.
\<close>

lemma calculate_area_invalid_ring:
  assumes "py_get data ''coordinates'' (JArr []) = Inr (JArr cs)"
    and "3 \<le> length cs"
    and "map (input_vertex lib) cs = map Some vs"
    and "polygon_is_valid lib (close_ring (map prod.swap vs)) = Some False"
  shows "calculate_area lib now data = Inl (BadRequest ''Invalid polygon geometry'')"
  using calculate_area_vertices [OF assms(1-3), of now] assms(4) by simp

lemma py_get_failure: "py_get v k d = Inl e \<Longrightarrow> e = InternalError AttributeError"
  by (cases v) auto

lemma py_getitem0_failure: "py_getitem0 v = Inl e \<Longrightarrow> \<exists>x. e = InternalError x"
  by (cases v rule: py_getitem0.cases) auto

lemma py_iter_failure: "py_iter v = Inl e \<Longrightarrow> e = InternalError TypeError"
  by (cases v) auto

lemma py_unpack2_failure: "py_unpack2 v = Inl e \<Longrightarrow> \<exists>x. e = InternalError x"
  by (auto simp: py_unpack2_def split: sum.splits list.splits dest: py_iter_failure)

lemma py_round_failure: "py_round lib v nd = Inl e \<Longrightarrow> e = InternalError TypeError"
  by (cases v) auto

lemma and_then_Inl_iff:
  "and_then m f = Inl e \<longleftrightarrow> m = Inl e \<or> (\<exists>x. m = Inr x \<and> f x = Inl e)"
  by (cases m) (simp_all add: and_then_def)

lemma map_result_failure:
  assumes "map_result f xs = Inl e"
  shows "\<exists>x. f x = Inl e"
  using assms by (induction xs) (auto split: sum.splits)

lemma leaflet_coords_failure:
  assumes "leaflet_coords c = Inl e"
  shows "\<exists>x. e = InternalError x"
proof (cases "py_iter c")
  case (Inl e')
  with assms show ?thesis by (auto simp: leaflet_coords_def dest: py_iter_failure)
next
  case (Inr items)
  with assms have "map_result (\<lambda>item. and_then (py_unpack2 item) (\<lambda>(lng, lat). Inr (JArr [lat, lng]))) items = Inl e"
    by (simp add: leaflet_coords_def)
  from map_result_failure [OF this] show ?thesis
    by (auto simp: and_then_Inl_iff split_def dest: py_unpack2_failure)
qed

lemma response_properties_failure:
  assumes "response_properties g = Inl e"
  shows "\<exists>x. e = InternalError x"
  using assms
  by (auto simp: response_properties_def and_then_def split: sum.splits if_splits
      dest: py_get_failure py_getitem0_failure)

lemma to_geojson_order_failure:
  assumes "to_geojson_order c = Inl e"
  shows "\<exists>x. e = InternalError x"
proof (cases "py_iter c")
  case (Inl e')
  with assms show ?thesis by (auto simp: to_geojson_order_def dest: py_iter_failure)
next
  case (Inr items)
  with assms have "map_result (\<lambda>item. and_then (py_unpack2 item) (\<lambda>(lat, lng). Inr (lng, lat))) items = Inl e"
    by (simp add: to_geojson_order_def)
  from map_result_failure [OF this] show ?thesis
    by (auto simp: and_then_Inl_iff split_def dest: py_unpack2_failure)
qed

lemma round_coordinates_failure:
  assumes "round_coordinates lib sw nd = Inl e"
  shows "e = InternalError TypeError"
proof -
  from map_result_failure [OF assms [unfolded round_coordinates_def]] show ?thesis
    by (auto simp: and_then_Inl_iff split_def dest: py_round_failure)
qed

lemma calculate_area_short:
  assumes "py_get data ''coordinates'' (JArr []) = Inr (JArr cs)"
  shows "(calculate_area lib now data = Inl (BadRequest ''At least 3 coordinates required''))
           = (length cs < 3)"
proof (cases "length cs < 3")
  case True
  with assms show ?thesis by (simp add: calculate_area_def)
next
  case False
  have "calculate_area lib now data \<noteq> Inl (BadRequest ''At least 3 coordinates required'')"
  proof
    assume bad: "calculate_area lib now data = Inl (BadRequest ''At least 3 coordinates required'')"
    show False
    proof (cases "to_geojson_order (JArr cs)")
      case (Inl e)
      with bad assms False to_geojson_order_failure [OF Inl] show False
        by (auto simp: calculate_area_def)
    next
      case (Inr sw)
      note sw = this
      show False
      proof (cases "round_coordinates lib sw 6")
        case (Inl e)
        with bad assms False sw round_coordinates_failure [OF Inl] show False
          by (auto simp: calculate_area_def)
      next
        case (Inr ro)
        with bad assms False sw show False
          by (auto simp: calculate_area_def Let_def split: option.splits if_splits)
      qed
    qed
  qed
  with False show ?thesis by simp
qed

lemma verify_geojson_short:
  fixes request :: "'n::zero json"
  assumes "py_get request ''geojson'' (JObj []) = Inr geojson_data"
    and "resolve_geometry geojson_data = Inr geometry"
    and "py_get geometry ''type'' JNull = Inr (JStr ''Polygon'')"
    and "py_get geometry ''coordinates'' (JArr [JArr []]) = Inr (JArr (JArr ring # holes))"
  shows "(verify_geojson request = Inl (BadRequest ''Invalid polygon coordinates''))
           = (length ring < 3)"
proof (cases "length ring < 3")
  case True
  with assms show ?thesis by (simp add: verify_geojson_def)
next
  case False
  have "verify_geojson request \<noteq> Inl (BadRequest ''Invalid polygon coordinates'')"
  proof
    assume bad: "verify_geojson request = Inl (BadRequest ''Invalid polygon coordinates'')"
    show False
    proof (cases "leaflet_coords (JArr ring)")
      case (Inl e)
      with bad assms False leaflet_coords_failure [OF Inl] show False
        by (auto simp: verify_geojson_def)
    next
      case (Inr coords)
      note coords = this
      show False
      proof (cases "response_properties geojson_data")
        case (Inl e)
        with bad assms False coords response_properties_failure [OF Inl] show False
          by (auto simp: verify_geojson_def)
      next
        case (Inr props)
        with bad assms False coords show False
          by (auto simp: verify_geojson_def)
      qed
    qed
  qed
  with False show ?thesis by simp
qed




section \<open>Properties of the calculator\<close>



text \<open>
  Claim C6. Whenever the calculator accepts a request, the input is a list \<open>cs\<close> of
  two-element items with rounded values \<open>vs\<close>, kept in the order of the input
  (latitude first). Handing the answer to the extractor, as the whole FeatureCollection
  or as its single Feature, succeeds, and the coordinates it returns are exactly these
  rounded input vertices, followed by the closing copy of the first one where the
  calculator appended it.
\<close>

theorem calculator_extractor_round_trip:
  fixes lib :: "'n::zero pylib"
  assumes "calculate_area lib now data = Inr out"
  shows "\<exists>cs vs feature props.
           py_get data ''coordinates'' (JArr []) = Inr (JArr cs) \<and>
           map (input_vertex lib) cs = map Some vs \<and>
           first_feature out = Inr feature \<and>
           verify_geojson (JObj [(''geojson'', out)]) =
             Inr (JObj [(''coordinates'', JArr (close_ring (map leaflet_pair vs))),
                        (''properties'', props)]) \<and>
           verify_geojson (JObj [(''geojson'', feature)]) =
             Inr (JObj [(''coordinates'', JArr (close_ring (map leaflet_pair vs))),
                        (''properties'', JObj [])])"
proof -
  from assms obtain cs vs where
    c: "py_get data ''coordinates'' (JArr []) = Inr (JArr cs)"
    and len: "3 \<le> length cs"
    and vs: "map (input_vertex lib) cs = map Some vs"
    and lvs: "length vs = length cs"
    and "polygon_is_valid lib (close_ring (map prod.swap vs)) = Some True"
    and out: "out = area_response lib now (close_ring (map prod.swap vs))
                 (area_of_ring lib (close_ring (map prod.swap vs))) (length cs)"
    by (rule calculate_area_accepted)
  let ?ring = "close_ring (map prod.swap vs)"
  from len lvs have ne: "vs \<noteq> []" by auto
  have swap: "?ring = map prod.swap (close_ring vs)"
    using ne by (simp add: close_ring_map [OF inj_swap])
  have leaf: "close_ring (map leaflet_pair vs) = map leaflet_pair (close_ring vs)"
    using ne by (simp add: close_ring_map [OF inj_leaflet_pair])
  have coords: "map (\<lambda>(lon, lat). JArr [JNum lat, JNum lon]) ?ring = close_ring (map leaflet_pair vs)"
    by (simp only: swap leaflet_swap leaf)
  have l3: "3 \<le> length ?ring"
    using len lvs length_close_ring [of "map prod.swap vs"] by simp
  obtain feature where f: "first_feature out = Inr feature"
    by (simp add: out first_feature_response)
  from verify_area_response [OF l3] verify_feature [OF l3 f [unfolded out]] c vs f
  show ?thesis
    unfolding out coords by blast
qed

theorem calculator_extractor_round_trip_witness:
  "calculate_area planar_lib ''2024-05-01T10:00:00'' field_request
     = Inr (field_answer ''2024-05-01T10:00:00'')
   \<and> (\<exists>cs vs feature props.
           py_get field_request ''coordinates'' (JArr []) = Inr (JArr cs) \<and>
           map (input_vertex planar_lib) cs = map Some vs \<and>
           first_feature (field_answer ''2024-05-01T10:00:00'') = Inr feature \<and>
           verify_geojson (JObj [(''geojson'', field_answer ''2024-05-01T10:00:00'')]) =
             Inr (JObj [(''coordinates'', JArr (close_ring (map leaflet_pair vs))),
                        (''properties'', props)]) \<and>
           verify_geojson (JObj [(''geojson'', feature)]) =
             Inr (JObj [(''coordinates'', JArr (close_ring (map leaflet_pair vs))),
                        (''properties'', JObj [])]))"
proof -
  have ok: "calculate_area planar_lib ''2024-05-01T10:00:00'' field_request
     = Inr (field_answer ''2024-05-01T10:00:00'')"
    by code_simp
  from ok calculator_extractor_round_trip [OF ok] show ?thesis by blast
qed

text \<open>
  Claim C7, as amended. The answer depends on the time at which the request is served,
  through the \<^verbatim>\<open>timestamp\<close> property and through nothing else: two runs on the same input
  with the same library routines fail in the same way or give answers that agree once
  the time stamp is blanked, and the time stamp of an answer is the time of its run
  followed by \<^verbatim>\<open>Z\<close>.
\<close>

theorem calculator_depends_on_time_only_in_timestamp:
  "map_sum id blank_timestamp (calculate_area lib t1 data) =
   map_sum id blank_timestamp (calculate_area lib t2 data) \<and>
   (\<forall>out. calculate_area lib t1 data = Inr out \<longrightarrow>
      output_property out ''timestamp'' = Inr (JStr (t1 @ ''Z'')))"
proof (cases "calculate_area lib t1 data")
  case (Inl e)
  with calculate_area_failure_time [OF Inl, of t2] show ?thesis by simp
next
  case (Inr out)
  then obtain cs vs where
    c: "py_get data ''coordinates'' (JArr []) = Inr (JArr cs)"
    and len: "3 \<le> length cs"
    and vs: "map (input_vertex lib) cs = map Some vs"
    and "length vs = length cs"
    and valid: "polygon_is_valid lib (close_ring (map prod.swap vs)) = Some True"
    and out: "out = area_response lib t1 (close_ring (map prod.swap vs))
                 (area_of_ring lib (close_ring (map prod.swap vs))) (length cs)"
    by (rule calculate_area_accepted)
  have "calculate_area lib t2 data = Inr (area_response lib t2 (close_ring (map prod.swap vs))
                 (area_of_ring lib (close_ring (map prod.swap vs))) (length cs))"
    using calculate_area_vertices [OF c len vs, of t2] valid by simp
  with Inr out show ?thesis
    by (simp add: blank_timestamp_response [of lib t1 _ _ _ t2] output_property_response)
qed

theorem calculator_depends_on_time_only_in_timestamp_witness:
  "map_sum id blank_timestamp (calculate_area planar_lib ''2024-05-01T10:00:00'' square_request) =
   map_sum id blank_timestamp (calculate_area planar_lib ''2024-05-01T10:00:01'' square_request) \<and>
   calculate_area planar_lib ''2024-05-01T10:00:00'' square_request
     = Inr (square_answer ''2024-05-01T10:00:00'') \<and>
   output_property (square_answer ''2024-05-01T10:00:00'') ''timestamp'' =
     Inr (JStr ''2024-05-01T10:00:00Z'')"
proof -
  have ok: "calculate_area planar_lib ''2024-05-01T10:00:00'' square_request
     = Inr (square_answer ''2024-05-01T10:00:00'')"
    by code_simp
  from calculator_depends_on_time_only_in_timestamp
         [of planar_lib "''2024-05-01T10:00:00''" square_request "''2024-05-01T10:00:01''"] ok
  show ?thesis by simp
qed

text \<open>
  The claim as it is written fails: the same request served one second later gets a
  different answer.
\<close>

theorem calculator_depends_on_time_counterexample:
  "calculate_area planar_lib ''2024-05-01T10:00:00'' square_request \<noteq>
   calculate_area planar_lib ''2024-05-01T10:00:01'' square_request"
proof -
  have "calculate_area planar_lib ''2024-05-01T10:00:00'' square_request
     = Inr (square_answer ''2024-05-01T10:00:00'')"
    by code_simp
  moreover have "calculate_area planar_lib ''2024-05-01T10:00:01'' square_request
     = Inr (square_answer ''2024-05-01T10:00:01'')"
    by code_simp
  ultimately show ?thesis
    by (simp add: square_answer_def area_response_def)
qed

text \<open>
  Claim C8. In every answer of the calculator, \<^verbatim>\<open>area_ha\<close> is the unsigned area of
  the answer's ring divided by 10000 and rounded to 4 places, and \<^verbatim>\<open>area_m2\<close> is the
  same unsigned area rounded to 2 places. The hectare figure is computed from the
  unrounded area, not from the reported \<^verbatim>\<open>area_m2\<close>.
\<close>

theorem calculator_area_figures:
  assumes "calculate_area lib now data = Inr out"
  shows "\<exists>ring. output_ring out = Inr (ring_json ring) \<and>
           output_property out ''area_ha'' =
             Inr (JNum (round_ndigits lib
                    (truediv lib
                       (abs_num lib (fst (polygon_area_perimeter lib (map fst ring) (map snd ring))))
                       (num_of_int lib 10000)) 4)) \<and>
           output_property out ''area_m2'' =
             Inr (JNum (round_ndigits lib
                    (abs_num lib (fst (polygon_area_perimeter lib (map fst ring) (map snd ring)))) 2))"
proof -
  from assms obtain cs vs where
    "py_get data ''coordinates'' (JArr []) = Inr (JArr cs)"
    and "3 \<le> length cs"
    and "map (input_vertex lib) cs = map Some vs"
    and "length vs = length cs"
    and "polygon_is_valid lib (close_ring (map prod.swap vs)) = Some True"
    and out: "out = area_response lib now (close_ring (map prod.swap vs))
                 (area_of_ring lib (close_ring (map prod.swap vs))) (length cs)"
    by (rule calculate_area_accepted)
  show ?thesis
    unfolding out
    by (rule exI [of _ "close_ring (map prod.swap vs)"])
       (simp add: output_property_response area_of_ring_def)
qed

theorem calculator_area_figures_witness:
  "calculate_area planar_lib ''2024-05-01T10:00:00'' field_request
     = Inr (field_answer ''2024-05-01T10:00:00'') \<and>
   output_property (field_answer ''2024-05-01T10:00:00'') ''area_ha'' = Inr (JNum 0) \<and>
   output_property (field_answer ''2024-05-01T10:00:00'') ''area_m2'' = Inr (JNum (1 / 100)) \<and>
   (\<exists>ring. output_ring (field_answer ''2024-05-01T10:00:00'') = Inr (ring_json ring) \<and>
           output_property (field_answer ''2024-05-01T10:00:00'') ''area_ha'' =
             Inr (JNum (round_ndigits planar_lib
                    (truediv planar_lib
                       (abs_num planar_lib
                          (fst (polygon_area_perimeter planar_lib (map fst ring) (map snd ring))))
                       (num_of_int planar_lib 10000)) 4)) \<and>
           output_property (field_answer ''2024-05-01T10:00:00'') ''area_m2'' =
             Inr (JNum (round_ndigits planar_lib
                    (abs_num planar_lib
                       (fst (polygon_area_perimeter planar_lib (map fst ring) (map snd ring)))) 2)))"
proof -
  have ok: "calculate_area planar_lib ''2024-05-01T10:00:00'' field_request
     = Inr (field_answer ''2024-05-01T10:00:00'')"
    by code_simp
  have ha: "output_property (field_answer ''2024-05-01T10:00:00'') ''area_ha'' = Inr (JNum 0)"
    by code_simp
  have m2: "output_property (field_answer ''2024-05-01T10:00:00'') ''area_m2'' = Inr (JNum (1 / 100))"
    by code_simp
  from ok ha m2 calculator_area_figures [OF ok] show ?thesis by blast
qed

section \<open>Properties of the extractor\<close>

text \<open>
  Claim C2, as amended. Both handlers count the entries of the list, repetitions
  included. For a request whose \<^verbatim>\<open>coordinates\<close> is a list, the calculator answers
  \<^verbatim>\<open>At least 3 coordinates required\<close> exactly when the list has fewer than three entries; for
  a request that resolves to a Polygon geometry whose first ring is a list, the extractor
  answers \<^verbatim>\<open>Invalid polygon coordinates\<close> exactly when that ring has fewer than three entries.
\<close>

theorem short_lists_rejected:
  fixes request :: "'n::zero json"
  assumes "py_get data ''coordinates'' (JArr []) = Inr (JArr cs)"
    and "py_get request ''geojson'' (JObj []) = Inr geojson_data"
    and "resolve_geometry geojson_data = Inr geometry"
    and "py_get geometry ''type'' JNull = Inr (JStr ''Polygon'')"
    and "py_get geometry ''coordinates'' (JArr [JArr []]) = Inr (JArr (JArr ring # holes))"
  shows "(calculate_area lib now data = Inl (BadRequest ''At least 3 coordinates required''))
           = (length cs < 3) \<and>
         (verify_geojson request = Inl (BadRequest ''Invalid polygon coordinates''))
           = (length ring < 3)"
  using calculate_area_short [OF assms(1)] verify_geojson_short [OF assms(2-5)] by simp

theorem short_lists_rejected_witness:
  "py_get (JObj [(''coordinates'', two_points)]) ''coordinates'' (JArr []) =
     Inr (JArr [JArr [JNum 0, JNum 0], JArr [JNum 1, JNum 1]]) \<and>
   py_get (verify_request (polygon_geometry two_points)) ''geojson'' (JObj []) =
     Inr (polygon_geometry two_points) \<and>
   resolve_geometry (polygon_geometry two_points) = Inr (polygon_geometry two_points) \<and>
   py_get (polygon_geometry two_points) ''type'' JNull = Inr (JStr ''Polygon'') \<and>
   py_get (polygon_geometry two_points) ''coordinates'' (JArr [JArr []]) =
     Inr (JArr [JArr [JArr [JNum 0, JNum 0], JArr [JNum 1, JNum 1]]]) \<and>
   calculate_area planar_lib ''2024-05-01T10:00:00'' (JObj [(''coordinates'', two_points)]) =
     Inl (BadRequest ''At least 3 coordinates required'') \<and>
   verify_geojson (verify_request (polygon_geometry two_points)) =
     Inl (BadRequest ''Invalid polygon coordinates'')"
proof -
  have a: "py_get (JObj [(''coordinates'', two_points)]) ''coordinates'' (JArr []) =
     Inr (JArr [JArr [JNum 0, JNum 0], JArr [JNum 1, JNum 1]])"
    by (simp add: two_points_def)
  have b: "py_get (verify_request (polygon_geometry two_points)) ''geojson'' (JObj []) =
     Inr (polygon_geometry two_points)"
    by (simp add: verify_request_def)
  have c: "resolve_geometry (polygon_geometry two_points) = Inr (polygon_geometry two_points)"
    by (simp add: resolve_geometry_def polygon_geometry_def)
  have d: "py_get (polygon_geometry two_points) ''type'' JNull = Inr (JStr ''Polygon'')"
    by (simp add: polygon_geometry_def)
  have e: "py_get (polygon_geometry two_points) ''coordinates'' (JArr [JArr []]) =
     Inr (JArr [JArr [JArr [JNum 0, JNum 0], JArr [JNum 1, JNum 1]]])"
    by (simp add: polygon_geometry_def two_points_def)
  from short_lists_rejected [OF a b c d e, of planar_lib "''2024-05-01T10:00:00''"] a b c d e
  show ?thesis by simp
qed

text \<open>
  The claim as it is written fails: a ring of three entries that are one and the same
  point has a single distinct vertex, yet the extractor accepts it, and the calculator
  does not answer with its too-few-coordinates message.
\<close>

theorem distinct_vertices_counterexample:
  "card (set [JArr [JNum 0, JNum 0], JArr [JNum 0, JNum 0], JArr [JNum (0 :: rat), JNum 0]]) < 3 \<and>
   repeated_point = JArr [JArr [JNum 0, JNum 0], JArr [JNum 0, JNum 0], JArr [JNum 0, JNum 0]] \<and>
   verify_geojson (verify_request (polygon_geometry repeated_point)) =
     Inr (JObj [(''coordinates'', repeated_point), (''properties'', JObj [])]) \<and>
   calculate_area planar_lib ''2024-05-01T10:00:00'' (JObj [(''coordinates'', repeated_point)]) \<noteq>
     Inl (BadRequest ''At least 3 coordinates required'')"
proof -
  have "verify_geojson (verify_request (polygon_geometry repeated_point)) =
     Inr (JObj [(''coordinates'', repeated_point), (''properties'', JObj [])])"
    by code_simp
  moreover have "calculate_area planar_lib ''2024-05-01T10:00:00''
      (JObj [(''coordinates'', repeated_point)]) = Inl (BadRequest ''Invalid polygon geometry'')"
    by code_simp
  ultimately show ?thesis by (simp add: repeated_point_def)
qed




text \<open>
  Claim C10, as amended. For a FeatureCollection whose \<^verbatim>\<open>features\<close> is a non-empty
  list, the answer of the extractor is the one it gives for the collection cut down to
  its first feature, whatever the later features are, also when one of them holds a
  Polygon. When the geometry of the first feature is an object whose type is not
  Polygon (an absent \<^verbatim>\<open>geometry\<close> counts as the empty object), the request is refused
  with \<^verbatim>\<open>Only Polygon geometry supported\<close>. When the first feature is not an object, or
  its geometry is not one (\<^verbatim>\<open>null\<close>, as GeoJSON writes a feature without location),
  the lookup raises \<^verbatim>\<open>AttributeError\<close> and the request fails with status 500.
\<close>

theorem first_feature_only:
  fixes request :: "'n::zero json"
  assumes "py_get request ''geojson'' (JObj []) = Inr (JObj kvs)"
    and "map_of kvs ''type'' = Some (JStr ''FeatureCollection'')"
    and "map_of kvs ''features'' = Some (JArr (feature # later))"
  shows "verify_geojson request =
           verify_geojson (JObj [(''geojson'', JObj ((''features'', JArr [feature]) # kvs))]) \<and>
         (\<forall>gkvs. py_get feature ''geometry'' (JObj []) = Inr (JObj gkvs) \<and>
                 map_of gkvs ''type'' \<noteq> Some (JStr ''Polygon'') \<longrightarrow>
                 verify_geojson request = Inl (BadRequest ''Only Polygon geometry supported'')) \<and>
         ((\<forall>gkvs. py_get feature ''geometry'' (JObj []) \<noteq> Inr (JObj gkvs)) \<longrightarrow>
            verify_geojson request = Inl (InternalError AttributeError))"
proof -
  have r1: "resolve_geometry (JObj kvs) = py_get feature ''geometry'' (JObj [])"
    using assms(2,3) by (simp add: resolve_geometry_def)
  have r2: "resolve_geometry (JObj ((''features'', JArr [feature]) # kvs)) = py_get feature ''geometry'' (JObj [])"
    using assms(2) by (simp add: resolve_geometry_def)
  have p1: "response_properties (JObj kvs) = py_get feature ''properties'' (JObj [])"
    using assms(2,3) by (simp add: response_properties_def)
  have p2: "response_properties (JObj ((''features'', JArr [feature]) # kvs)) = py_get feature ''properties'' (JObj [])"
    using assms(2) by (simp add: response_properties_def)
  have same: "verify_geojson request =
           verify_geojson (JObj [(''geojson'', JObj ((''features'', JArr [feature]) # kvs))])"
    using assms(1) by (simp add: verify_geojson_def r1 r2 p1 p2 cong: if_cong)
  have unsupported: "verify_geojson request = Inl (BadRequest ''Only Polygon geometry supported'')"
    if "py_get feature ''geometry'' (JObj []) = Inr (JObj gkvs)"
      and "map_of gkvs ''type'' \<noteq> Some (JStr ''Polygon'')" for gkvs
    using assms(1) that by (auto simp: verify_geojson_def r1 split: option.splits)
  have internal: "verify_geojson request = Inl (InternalError AttributeError)"
    if no: "\<forall>gkvs. py_get feature ''geometry'' (JObj []) \<noteq> Inr (JObj gkvs)"
  proof (cases "py_get feature ''geometry'' (JObj [])")
    case (Inl e)
    with py_get_failure [OF Inl] assms(1) show ?thesis
      by (simp add: verify_geojson_def r1)
  next
    case (Inr g)
    with no have "\<forall>gkvs. g \<noteq> JObj gkvs" by simp
    then have "py_get g ''type'' JNull = Inl (InternalError AttributeError)"
      by (cases g) simp_all
    with Inr assms(1) show ?thesis
      by (simp add: verify_geojson_def r1)
  qed
  from same unsupported internal show ?thesis by blast
qed

theorem first_feature_only_witness:
  "py_get (verify_request
       (JObj [(''type'', JStr ''FeatureCollection''), (''features'', JArr [point_feature, named_feature])]))
     ''geojson'' (JObj []) =
     Inr (JObj [(''type'', JStr ''FeatureCollection''), (''features'', JArr [point_feature, named_feature])]) \<and>
   map_of [(''type'', JStr ''FeatureCollection''), (''features'', JArr [point_feature, named_feature])]
     ''type'' = Some (JStr ''FeatureCollection'') \<and>
   map_of [(''type'', JStr ''FeatureCollection''), (''features'', JArr [point_feature, named_feature])]
     ''features'' = Some (JArr [point_feature, named_feature]) \<and>
   py_get point_feature ''geometry'' (JObj []) =
     Inr (JObj [(''type'', JStr ''Point''), (''coordinates'', JArr [JNum 10, JNum 50])]) \<and>
   verify_geojson (verify_request named_feature) =
     Inr (JObj [(''coordinates'', triangle_leaflet),
                (''properties'', JObj [])]) \<and>
   verify_geojson (verify_request
       (JObj [(''type'', JStr ''FeatureCollection''), (''features'', JArr [point_feature, named_feature])])) =
     Inl (BadRequest ''Only Polygon geometry supported'')"
proof -
  have a: "py_get (verify_request
       (JObj [(''type'', JStr ''FeatureCollection''), (''features'', JArr [point_feature, named_feature])]))
     ''geojson'' (JObj []) =
     Inr (JObj [(''type'', JStr ''FeatureCollection''), (''features'', JArr [point_feature, named_feature])])"
    by (simp add: verify_request_def)
  have b: "map_of [(''type'', JStr ''FeatureCollection''), (''features'', JArr [point_feature, named_feature])]
     ''type'' = Some (JStr ''FeatureCollection'')"
    by simp
  have c: "map_of [(''type'', JStr ''FeatureCollection''), (''features'', JArr [point_feature, named_feature])]
     ''features'' = Some (JArr [point_feature, named_feature])"
    by simp
  have g: "py_get point_feature ''geometry'' (JObj []) =
     Inr (JObj [(''type'', JStr ''Point''), (''coordinates'', JArr [JNum 10, JNum 50])])"
    by (simp add: point_feature_def)
  have t: "map_of [(''type'', JStr ''Point''), (''coordinates'', JArr [JNum 10, JNum (50 :: rat)])] ''type''
      \<noteq> Some (JStr ''Polygon'')"
    by simp
  have later: "verify_geojson (verify_request named_feature) =
     Inr (JObj [(''coordinates'', triangle_leaflet), (''properties'', JObj [])])"
    by code_simp
  from first_feature_only [OF a b c] g t
  have "verify_geojson (verify_request
       (JObj [(''type'', JStr ''FeatureCollection''), (''features'', JArr [point_feature, named_feature])])) =
     Inl (BadRequest ''Only Polygon geometry supported'')"
    by blast
  with a b c g later show ?thesis by simp
qed

text \<open>
  The claim as it is written fails: the first feature of this collection has no location
  (\<^verbatim>\<open>"geometry": null\<close>), so its geometry is not of type Polygon, and a later feature
  holds a Polygon; the request fails with the internal error, not with
  \<^verbatim>\<open>Only Polygon geometry supported\<close>.
\<close>

theorem null_geometry_counterexample:
  "py_get unlocated_feature ''geometry'' (JObj []) = Inr JNull \<and>
   verify_geojson (verify_request
       (JObj [(''type'', JStr ''FeatureCollection''),
              (''features'', JArr [unlocated_feature, named_feature])])) =
     Inl (InternalError AttributeError) \<and>
   verify_geojson (verify_request
       (JObj [(''type'', JStr ''FeatureCollection''),
              (''features'', JArr [unlocated_feature, named_feature])])) \<noteq>
     Inl (BadRequest ''Only Polygon geometry supported'')"
  by code_simp

end
